theory Spec2Isabelle
  imports Main
begin

section \<open>JavaScript values\<close>

text \<open>
  The scalar values that travel through \<^verbatim>\<open>server.ts\<close>: fields of the request body, column
  values of a row, the fields of a \<^verbatim>\<open>User\<close>. Numbers are the integers and NaN (role
  ordinals, ids and row counts are integers; fractions are outside the model).
\<close>

datatype jsval = JUndefined | JNull | JNum int | JNaN | JStr string

text \<open>The condition of an \<^verbatim>\<open>if\<close> and the operands of \<^verbatim>\<open>&&\<close>: ToBoolean.\<close>

definition truthy :: "jsval \<Rightarrow> bool" where
  "truthy v =
     (case v of
        JUndefined \<Rightarrow> False
      | JNull \<Rightarrow> False
      | JNum n \<Rightarrow> n \<noteq> 0
      | JNaN \<Rightarrow> False
      | JStr s \<Rightarrow> s \<noteq> [])"

definition is_ws :: "char \<Rightarrow> bool" where
  "is_ws c = (c = CHR '' '' \<or> c = CHR 0x09 \<or> c = CHR 0x0A \<or> c = CHR 0x0D)"

definition trim :: "string \<Rightarrow> string" where
  "trim s = rev (dropWhile is_ws (rev (dropWhile is_ws s)))"

definition is_digit :: "char \<Rightarrow> bool" where
  "is_digit c = (48 \<le> (of_char c :: nat) \<and> (of_char c :: nat) \<le> 57)"

definition digits_value :: "string \<Rightarrow> int" where
  "digits_value ds = foldl (\<lambda>n c. 10 * n + (int (of_char c) - 48)) 0 ds"

text \<open>
  \<^verbatim>\<open>Number(s)\<close> on a string: white space is trimmed, the empty string is 0, a decimal
  integer literal with an optional sign is its value. Every other string is read as NaN
  here (JavaScript also reads fractions, exponents and radix prefixes; none of them is a
  role ordinal or a row id).
\<close>

definition StringToNumber :: "string \<Rightarrow> jsval" where
  "StringToNumber s =
     (let t = trim s in
      if t = [] then JNum 0
      else if list_all is_digit t then JNum (digits_value t)
      else if hd t = CHR ''-'' \<and> tl t \<noteq> [] \<and> list_all is_digit (tl t)
        then JNum (- digits_value (tl t))
      else if hd t = CHR ''+'' \<and> tl t \<noteq> [] \<and> list_all is_digit (tl t)
        then JNum (digits_value (tl t))
      else JNaN)"

definition Number :: "jsval \<Rightarrow> jsval" where
  "Number v =
     (case v of
        JUndefined \<Rightarrow> JNaN
      | JNull \<Rightarrow> JNum 0
      | JNum n \<Rightarrow> JNum n
      | JNaN \<Rightarrow> JNaN
      | JStr s \<Rightarrow> StringToNumber s)"

text \<open>\<^verbatim>\<open>a > b\<close> for a number \<open>a\<close> and a result \<open>b\<close> of \<^verbatim>\<open>Number\<close>: false when \<open>b\<close> is NaN.\<close>

definition js_gt :: "int \<Rightarrow> jsval \<Rightarrow> bool" where
  "js_gt a b = (case b of JNum n \<Rightarrow> n < a | _ \<Rightarrow> False)"

fun decimal :: "nat \<Rightarrow> string" where
  "decimal n =
     (if n < 10 then [char_of (48 + n)]
      else decimal (n div 10) @ [char_of (48 + n mod 10)])"

declare decimal.simps [simp del]

text \<open>String conversion, as string concatenation and template literals apply it.\<close>

definition ToString :: "jsval \<Rightarrow> string" where
  "ToString v =
     (case v of
        JUndefined \<Rightarrow> ''undefined''
      | JNull \<Rightarrow> ''null''
      | JNum n \<Rightarrow> (if n < 0 then ''-'' @ decimal (nat (- n)) else decimal (nat n))
      | JNaN \<Rightarrow> ''NaN''
      | JStr s \<Rightarrow> s)"

fun join :: "string \<Rightarrow> string list \<Rightarrow> string" where
  "join sep [] = []"
| "join sep [x] = x"
| "join sep (x # y # ys) = x @ sep @ join sep (y # ys)"

section \<open>The data model\<close>

text \<open>
  Modelled from the spec: the enum \<^verbatim>\<open>Rights\<close> of \<^verbatim>\<open>model/rights.ts\<close>, which is not
  among the sources. The spec calls it a small closed ordinal enum (User < Admin) whose
  lowest ordinal is the standard user; the members are numbered from 0 as a TypeScript
  enum numbers them.
\<close>

datatype Rights = Rights_User | Rights_Admin

definition ordinal :: "Rights \<Rightarrow> int" where
  "ordinal r = (case r of Rights_User \<Rightarrow> 0 | Rights_Admin \<Rightarrow> 1)"

text \<open>\<^verbatim>\<open>new Date(v)\<close>, kept symbolic: the date made from the value \<open>v\<close>.\<close>

datatype Date = new_Date jsval

text \<open>
  Modelled from the spec: the class \<^verbatim>\<open>User\<close> of \<^verbatim>\<open>model/user.ts\<close>, which is not among
  the sources. Its six fields are the six arguments \<^verbatim>\<open>server.ts\<close> passes to the
  constructor, in that order, and the six keys of the documented response bodies.
\<close>

record User =
  u_id :: jsval
  u_username :: jsval
  u_firstName :: jsval
  u_lastName :: jsval
  u_creationTime :: Date
  u_rights :: jsval

definition new_User :: "jsval \<Rightarrow> jsval \<Rightarrow> jsval \<Rightarrow> jsval \<Rightarrow> Date \<Rightarrow> jsval \<Rightarrow> User" where
  "new_User i username firstName lastName creationTime rights =
     \<lparr>u_id = i, u_username = username, u_firstName = firstName, u_lastName = lastName,
      u_creationTime = creationTime, u_rights = rights\<rparr>"

text \<open>
  A row of the table \<^verbatim>\<open>userlist\<close>: the columns the statements of \<^verbatim>\<open>server.ts\<close> name.
\<close>

record Row =
  c_id :: jsval
  c_creationTime :: jsval
  c_username :: jsval
  c_password :: jsval
  c_firstName :: jsval
  c_lastName :: jsval
  c_rights :: jsval

text \<open>
  \<^verbatim>\<open>login\<close> reads the property \<^verbatim>\<open>time\<close> of the row. No column has that name (the INSERT
  statement writes \<^verbatim>\<open>creationTime\<close>), so the read yields undefined.
\<close>

definition c_time :: "Row \<Rightarrow> jsval" where
  "c_time r = JUndefined"

section \<open>The store driver\<close>

text \<open>
  \<^verbatim>\<open>database.query(sql, data, callback)\<close> calls back with an error (or null) and a result.
  The result of a SELECT is the array of rows, the result of a write carries
  \<^verbatim>\<open>affectedRows\<close>, and a failed call leaves the result undefined. The driver is a
  collaborator: the handlers below are defined for any driver over any store state.
\<close>

type_synonym MysqlError = string

datatype result = RUndefined | Rows "Row list" | OkPacket nat

type_synonym 's driver = "string \<Rightarrow> jsval list \<Rightarrow> 's \<Rightarrow> (MysqlError option \<times> result) \<times> 's"

record 's env =
  SHA512 :: "jsval \<Rightarrow> string"
  database_query :: "'s driver"

text \<open>
  What a \<^verbatim>\<open>try\<close> block can throw: the value a rejected \<^verbatim>\<open>query\<close> carries, or the
  TypeError of a property read on undefined or of iterating a value that is no array
  (with the message text of V8).
\<close>

datatype thrown = Rejected result | TypeError string

definition cannot_read :: "string \<Rightarrow> thrown" where
  "cannot_read p =
     TypeError (''Cannot read properties of undefined (reading '' @ [CHR 0x27] @ p @ [CHR 0x27] @ '')'')"

definition not_iterable :: "string \<Rightarrow> thrown" where
  "not_iterable x = TypeError (x @ '' is not iterable'')"

definition result_ToString :: "result \<Rightarrow> string" where
  "result_ToString r =
     (case r of
        RUndefined \<Rightarrow> ''undefined''
      | Rows rs \<Rightarrow> join '','' (map (\<lambda>r. ''[object Object]'') rs)
      | OkPacket n \<Rightarrow> ''[object Object]'')"

definition thrown_ToString :: "thrown \<Rightarrow> string" where
  "thrown_ToString t =
     (case t of
        Rejected r \<Rightarrow> result_ToString r
      | TypeError m \<Rightarrow> ''TypeError: '' @ m)"

section \<open>Requests, responses and the state of the server\<close>

datatype endpoint =
  GET_login | POST_login | POST_logout | POST_user | GET_user | PUT_user | DELETE_user
  | GET_users

record Request =
  route :: endpoint
  params_userId :: string
  body_username :: jsval
  body_password :: jsval
  body_firstName :: jsval
  body_lastName :: jsval
  now :: string

record Body =
  message :: string
  user :: "User option"
  userList :: "User list option"

record Response =
  status :: nat
  body :: Body

definition msg :: "string \<Rightarrow> Body" where
  "msg m = \<lparr>message = m, user = None, userList = None\<rparr>"

text \<open>
  The state a request can touch: the slot \<^verbatim>\<open>req.session.user\<close> of its session, the
  store behind the driver, and the trace of the calls of \<^verbatim>\<open>database.query\<close>.
\<close>

record 's world =
  session_user :: "User option"
  store :: 's
  issued :: "(string \<times> jsval list) list"

text \<open>
  A middleware function either calls \<^verbatim>\<open>next()\<close>, or sends a response, or throws.
\<close>

datatype outcome = Next | Sent Response | Threw thrown

type_synonym 's middleware = "Request \<Rightarrow> 's world \<Rightarrow> outcome \<times> 's world"

section \<open>The query wrapper and the guards\<close>

text \<open>
  \<^verbatim>\<open>query\<close> wraps the driver call in a promise: \<open>Inl\<close> is the rejected promise,
  \<open>Inr\<close> the resolved one. When the driver reports an error the promise is rejected
  with the callback's \<^verbatim>\<open>result\<close>, as the source has it.
\<close>

definition query :: "'s env \<Rightarrow> string \<Rightarrow> jsval list \<Rightarrow> 's world \<Rightarrow> (result + result) \<times> 's world" where
  "query E sql data w =
     (case database_query E sql data (store w) of
        ((err, result), s) \<Rightarrow>
          ((case err of Some e \<Rightarrow> Inl result | None \<Rightarrow> Inr result),
           w\<lparr>store := s, issued := issued w @ [(sql, data)]\<rparr>))"

definition isLoggedIn :: "'s middleware" where
  "isLoggedIn req w =
     (case session_user w of
        Some u \<Rightarrow> (Next, w)
      | None \<Rightarrow>
          (Sent \<lparr>status = 401, body = msg ''Session expired, please log in again''\<rparr>, w))"

text \<open>
  The guard reads \<^verbatim>\<open>req.session.user.rights\<close> with no check of its own: on a session
  without a user the read throws.
\<close>

definition isPrivilegedAtLeast :: "int \<Rightarrow> 's middleware" where
  "isPrivilegedAtLeast rights req w =
     (case session_user w of
        None \<Rightarrow> (Threw (cannot_read ''rights''), w)
      | Some u \<Rightarrow>
          if js_gt rights (Number (u_rights u)) then
            (Sent \<lparr>status = 403, body = msg ''You are not allowed to execute this action''\<rparr>, w)
          else (Next, w))"

section \<open>The route handlers\<close>

definition get_login :: "'s middleware" where
  "get_login req w =
     (Sent \<lparr>status = 200,
            body = \<lparr>message = ''User still logged in'', user = session_user w,
                    userList = None\<rparr>\<rparr>, w)"

definition login :: "'s env \<Rightarrow> 's middleware" where
  "login E req w =
     (let username = body_username req;
          password = body_password req;
          data = [username, JStr (SHA512 E password)];
          query1 = ''SELECT * FROM userlist WHERE username = ? AND password = ?;''
      in case query E query1 data w of
           (Inr users, w1) \<Rightarrow>
             (case users of
                Rows us \<Rightarrow>
                  if length us = 1 then
                    (let user = new_User (c_id (us ! 0)) (c_username (us ! 0))
                                  (c_firstName (us ! 0)) (c_lastName (us ! 0))
                                  (new_Date (c_time (us ! 0))) (c_rights (us ! 0))
                     in (Sent \<lparr>status = 200,
                               body = \<lparr>message = ''Successfully logged in'', user = Some user,
                                       userList = None\<rparr>\<rparr>,
                         w1\<lparr>session_user := Some user\<rparr>))
                  else
                    (Sent \<lparr>status = 401, body = msg ''Username or password is incorrect.''\<rparr>,
                     w1)
              | OkPacket n \<Rightarrow>
                  (Sent \<lparr>status = 401, body = msg ''Username or password is incorrect.''\<rparr>,
                   w1)
              | RUndefined \<Rightarrow>
                  (Sent \<lparr>status = 500,
                         body = msg (''Database request failed: ''
                                      @ thrown_ToString (cannot_read ''length''))\<rparr>, w1))
         | (Inl err, w1) \<Rightarrow>
             (Sent \<lparr>status = 500,
                    body = msg (''Database request failed: '' @ thrown_ToString (Rejected err))\<rparr>,
              w1))"

definition logout :: "'s middleware" where
  "logout req w =
     (Sent \<lparr>status = 200, body = msg ''Successfully logged out''\<rparr>, w\<lparr>session_user := None\<rparr>)"

definition createUser :: "'s env \<Rightarrow> 's middleware" where
  "createUser E req w =
     (let firstName = body_firstName req;
          lastName = body_lastName req;
          username = body_username req;
          password = JStr (SHA512 E (body_password req))
      in if truthy firstName \<and> truthy lastName then
           (let data = [JStr (now req), username, password, firstName, lastName,
                        JNum (ordinal Rights_User)];
                query1 = ''INSERT INTO userlist (creationTime, username, password, firstName, lastName, rights) VALUES (?, ?, ?, ?, ?, ?);''
            in case query E query1 data w of
                 (Inr created, w1) \<Rightarrow>
                   (Sent \<lparr>status = 201, body = msg ''Successfully created new user''\<rparr>, w1)
               | (Inl err, w1) \<Rightarrow>
                   (Sent \<lparr>status = 400,
                          body = msg ''An error occured while creating the new user''\<rparr>, w1))
         else
           (Sent \<lparr>status = 400, body = msg ''Not all mandatory fields are filled in''\<rparr>, w))"

text \<open>
  \<^verbatim>\<open>getUserfromId\<close> and \<^verbatim>\<open>deleteUser\<close> hand the bare number to \<^verbatim>\<open>query\<close>, which the
  driver takes as the list of that one value; \<^verbatim>\<open>getUserlist\<close> hands over null, the empty
  list of values. A result of the wrong shape (no array where rows are read, no packet
  where \<^verbatim>\<open>affectedRows\<close> is read) takes the branch JavaScript takes: a property that is
  missing reads as undefined, a read on undefined throws into the \<^verbatim>\<open>catch\<close> block.
\<close>

definition getUserfromId :: "'s env \<Rightarrow> 's middleware" where
  "getUserfromId E req w =
     (let userId = Number (JStr (params_userId req));
          query1 = ''SELECT * FROM userlist WHERE id = ?;''
      in case query E query1 [userId] w of
           (Inr rows, w1) \<Rightarrow>
             (case rows of
                Rows rs \<Rightarrow>
                  if length rs = 1 then
                    (let user = new_User (c_id (rs ! 0)) (c_username (rs ! 0))
                                  (c_firstName (rs ! 0)) (c_lastName (rs ! 0))
                                  (new_Date (c_creationTime (rs ! 0))) (c_rights (rs ! 0))
                     in (Sent \<lparr>status = 200,
                               body = \<lparr>message = ''Successfully got user'', user = Some user,
                                       userList = None\<rparr>\<rparr>, w1))
                  else
                    (Sent \<lparr>status = 404, body = msg ''The requested user can not be found.''\<rparr>,
                     w1)
              | OkPacket n \<Rightarrow>
                  (Sent \<lparr>status = 404, body = msg ''The requested user can not be found.''\<rparr>,
                   w1)
              | RUndefined \<Rightarrow>
                  (Sent \<lparr>status = 500,
                         body = msg (''Database request failed: ''
                                      @ thrown_ToString (cannot_read ''length''))\<rparr>, w1))
         | (Inl err, w1) \<Rightarrow>
             (Sent \<lparr>status = 500,
                    body = msg (''Database request failed: '' @ thrown_ToString (Rejected err))\<rparr>,
              w1))"

definition update :: "'s env \<Rightarrow> 's middleware" where
  "update E req w =
     (let userId = Number (JStr (params_userId req));
          firstName = body_firstName req;
          lastName = body_lastName req
      in if truthy firstName \<and> truthy lastName then
           (let data = [firstName, lastName, userId];
                query1 = ''UPDATE userlist SET firstName = ?, lastName = ? WHERE id = ?;''
            in case query E query1 data w of
                 (Inr result, w1) \<Rightarrow>
                   (case result of
                      OkPacket affectedRows \<Rightarrow>
                        if affectedRows \<noteq> 1 then
                          (Sent \<lparr>status = 400,
                                 body = msg ''The user to update could not be found''\<rparr>, w1)
                        else
                          (Sent \<lparr>status = 200,
                                 body = msg (''Successfully updated user '' @ ToString firstName
                                              @ '' '' @ ToString lastName)\<rparr>, w1)
                    | Rows rs \<Rightarrow>
                        (Sent \<lparr>status = 400,
                               body = msg ''The user to update could not be found''\<rparr>, w1)
                    | RUndefined \<Rightarrow>
                        (Sent \<lparr>status = 400,
                               body = msg ''The user to update could not be found''\<rparr>, w1))
               | (Inl err, w1) \<Rightarrow>
                   (Sent \<lparr>status = 400, body = msg ''The user to update could not be found''\<rparr>,
                    w1))
         else
           (Sent \<lparr>status = 400, body = msg ''Not all mandatory fields are filled in''\<rparr>, w))"

definition deleteUser :: "'s env \<Rightarrow> 's middleware" where
  "deleteUser E req w =
     (let userId = Number (JStr (params_userId req));
          query1 = ''DELETE FROM userlist WHERE id = ?;''
      in case query E query1 [userId] w of
           (Inr result, w1) \<Rightarrow>
             (case result of
                OkPacket affectedRows \<Rightarrow>
                  if affectedRows = 1 then
                    (Sent \<lparr>status = 200, body = msg ''Successfully deleted user ''\<rparr>, w1)
                  else
                    (Sent \<lparr>status = 400,
                           body = msg ''The user to be deleted could not be found''\<rparr>, w1)
              | Rows rs \<Rightarrow>
                  (Sent \<lparr>status = 400,
                         body = msg ''The user to be deleted could not be found''\<rparr>, w1)
              | RUndefined \<Rightarrow>
                  (Sent \<lparr>status = 500,
                         body = msg (''Database request failed: ''
                                      @ thrown_ToString (cannot_read ''affectedRows''))\<rparr>, w1))
         | (Inl err, w1) \<Rightarrow>
             (Sent \<lparr>status = 500,
                    body = msg (''Database request failed: '' @ thrown_ToString (Rejected err))\<rparr>,
              w1))"

definition getUserlist :: "'s env \<Rightarrow> 's middleware" where
  "getUserlist E req w =
     (let query1 = ''SELECT * FROM userlist;''
      in case query E query1 [] w of
           (Inr rows, w1) \<Rightarrow>
             (case rows of
                Rows rs \<Rightarrow>
                  (let userList =
                         map (\<lambda>row. new_User (c_id row) (c_username row) (c_firstName row)
                                      (c_lastName row) (new_Date (c_creationTime row))
                                      (c_rights row)) rs
                   in (Sent \<lparr>status = 200,
                             body = \<lparr>message = ''Successfully requested user list'',
                                     user = None, userList = Some userList\<rparr>\<rparr>, w1))
              | OkPacket n \<Rightarrow>
                  (Sent \<lparr>status = 500,
                         body = msg (''Database request failed: ''
                                      @ thrown_ToString (not_iterable ''rows''))\<rparr>, w1)
              | RUndefined \<Rightarrow>
                  (Sent \<lparr>status = 500,
                         body = msg (''Database request failed: ''
                                      @ thrown_ToString (not_iterable ''rows''))\<rparr>, w1))
         | (Inl err, w1) \<Rightarrow>
             (Sent \<lparr>status = 500,
                    body = msg (''Database request failed: '' @ thrown_ToString (Rejected err))\<rparr>,
              w1))"

section \<open>The routes\<close>

text \<open>
  A route runs its middleware functions in the order they are registered: a function
  that calls \<^verbatim>\<open>next()\<close> hands over to the following one, a response or a throw ends the
  request.
\<close>

fun run :: "'s middleware list \<Rightarrow> 's middleware" where
  "run [] req w = (Next, w)"
| "run (m # ms) req w =
     (case m req w of
        (Next, w1) \<Rightarrow> run ms req w1
      | (Sent r, w1) \<Rightarrow> (Sent r, w1)
      | (Threw t, w1) \<Rightarrow> (Threw t, w1))"

definition stack :: "'s env \<Rightarrow> endpoint \<Rightarrow> 's middleware list" where
  "stack E r =
     (case r of
        GET_login \<Rightarrow> [isLoggedIn, get_login]
      | POST_login \<Rightarrow> [login E]
      | POST_logout \<Rightarrow> [logout]
      | POST_user \<Rightarrow> [isLoggedIn, isPrivilegedAtLeast (ordinal Rights_Admin), createUser E]
      | GET_user \<Rightarrow> [isLoggedIn, getUserfromId E]
      | PUT_user \<Rightarrow> [isLoggedIn, isPrivilegedAtLeast (ordinal Rights_Admin), update E]
      | DELETE_user \<Rightarrow> [isLoggedIn, isPrivilegedAtLeast (ordinal Rights_Admin), deleteUser E]
      | GET_users \<Rightarrow> [isLoggedIn, getUserlist E])"

definition app :: "'s env \<Rightarrow> 's middleware" where
  "app E req w = run (stack E (route req)) req w"

section \<open>A reference store\<close>

text \<open>
  One store to run the handlers against: the table \<^verbatim>\<open>userlist\<close> as a list of rows, the
  counter of the generated ids, and the state of the connection (a failure, when there
  is one, fails every call). It reads the six statements of \<^verbatim>\<open>server.ts\<close> and no other.
  Columns are compared by equality of values, NULL equals nothing, and no column is
  constrained: a store that also rejects a duplicate user name behaves as this one does
  with a failure.
\<close>

record Store =
  userlist :: "Row list"
  auto_increment :: int
  failure :: "MysqlError option"

datatype statement =
  SelectByCredentials | InsertUser | SelectById | UpdateNames | DeleteById | SelectAll

definition parse :: "string \<Rightarrow> statement option" where
  "parse sql =
     (if sql = ''SELECT * FROM userlist WHERE username = ? AND password = ?;''
        then Some SelectByCredentials
      else if sql = ''INSERT INTO userlist (creationTime, username, password, firstName, lastName, rights) VALUES (?, ?, ?, ?, ?, ?);''
        then Some InsertUser
      else if sql = ''SELECT * FROM userlist WHERE id = ?;'' then Some SelectById
      else if sql = ''UPDATE userlist SET firstName = ?, lastName = ? WHERE id = ?;''
        then Some UpdateNames
      else if sql = ''DELETE FROM userlist WHERE id = ?;'' then Some DeleteById
      else if sql = ''SELECT * FROM userlist;'' then Some SelectAll
      else None)"

definition sql_eq :: "jsval \<Rightarrow> jsval \<Rightarrow> bool" where
  "sql_eq column v = (column = v \<and> v \<noteq> JNull \<and> v \<noteq> JUndefined)"

text \<open>The driver writes undefined as NULL.\<close>

definition to_sql :: "jsval \<Rightarrow> jsval" where
  "to_sql v = (if v = JUndefined then JNull else v)"

definition wrong_value_count :: "Store \<Rightarrow> (MysqlError option \<times> result) \<times> Store" where
  "wrong_value_count st = ((Some ''ER_WRONG_VALUE_COUNT'', RUndefined), st)"

definition exec :: "statement \<Rightarrow> jsval list \<Rightarrow> Store \<Rightarrow> (MysqlError option \<times> result) \<times> Store" where
  "exec stmt data st =
     (case stmt of
        SelectByCredentials \<Rightarrow>
          (case data of
             [username, password] \<Rightarrow>
               ((None, Rows (filter (\<lambda>r. sql_eq (c_username r) username
                                          \<and> sql_eq (c_password r) password) (userlist st))), st)
           | _ \<Rightarrow> wrong_value_count st)
      | InsertUser \<Rightarrow>
          (case data of
             [creationTime, username, password, firstName, lastName, rights] \<Rightarrow>
               ((None, OkPacket 1),
                st\<lparr>userlist := userlist st @
                      [\<lparr>c_id = JNum (auto_increment st), c_creationTime = to_sql creationTime,
                        c_username = to_sql username, c_password = to_sql password,
                        c_firstName = to_sql firstName, c_lastName = to_sql lastName,
                        c_rights = to_sql rights\<rparr>],
                   auto_increment := auto_increment st + 1\<rparr>)
           | _ \<Rightarrow> wrong_value_count st)
      | SelectById \<Rightarrow>
          (case data of
             [i] \<Rightarrow> ((None, Rows (filter (\<lambda>r. sql_eq (c_id r) i) (userlist st))), st)
           | _ \<Rightarrow> wrong_value_count st)
      | UpdateNames \<Rightarrow>
          (case data of
             [firstName, lastName, i] \<Rightarrow>
               ((None, OkPacket (length (filter (\<lambda>r. sql_eq (c_id r) i) (userlist st)))),
                st\<lparr>userlist :=
                      map (\<lambda>r. if sql_eq (c_id r) i
                                then r\<lparr>c_firstName := to_sql firstName,
                                       c_lastName := to_sql lastName\<rparr>
                                else r) (userlist st)\<rparr>)
           | _ \<Rightarrow> wrong_value_count st)
      | DeleteById \<Rightarrow>
          (case data of
             [i] \<Rightarrow>
               ((None, OkPacket (length (filter (\<lambda>r. sql_eq (c_id r) i) (userlist st)))),
                st\<lparr>userlist := filter (\<lambda>r. \<not> sql_eq (c_id r) i) (userlist st)\<rparr>)
           | _ \<Rightarrow> wrong_value_count st)
      | SelectAll \<Rightarrow>
          (case data of
             [] \<Rightarrow> ((None, Rows (userlist st)), st)
           | _ \<Rightarrow> wrong_value_count st))"

text \<open>
  A NaN among the values is written into the statement as the bare word NaN, which the
  server rejects as an unknown column.
\<close>

definition mysql :: "Store driver" where
  "mysql sql data st =
     (case failure st of
        Some e \<Rightarrow> ((Some e, RUndefined), st)
      | None \<Rightarrow>
          if JNaN \<in> set data then ((Some ''ER_BAD_FIELD_ERROR'', RUndefined), st)
          else (case parse sql of
                  None \<Rightarrow> ((Some ''ER_PARSE_ERROR'', RUndefined), st)
                | Some stmt \<Rightarrow> exec stmt data st))"

text \<open>
  The driver \<open>d\<close> with the password column of every row it returns overwritten by \<open>p\<close>:
  a response that is the same under every such overwriting carries nothing of the stored
  digests.
\<close>

definition mask_password :: "jsval \<Rightarrow> 's driver \<Rightarrow> 's driver" where
  "mask_password p d sql data st =
     (case d sql data st of
        ((err, Rows rs), s) \<Rightarrow> ((err, Rows (map (\<lambda>r. r\<lparr>c_password := p\<rparr>) rs)), s)
      | ((err, RUndefined), s) \<Rightarrow> ((err, RUndefined), s)
      | ((err, OkPacket n), s) \<Rightarrow> ((err, OkPacket n), s))"

section \<open>A small installation\<close>

text \<open>
  Concrete data to run the server on: a stand-in for the digest, a table of two users
  (an administrator and a standard user), their session snapshots, and a request.
\<close>

definition demo_digest :: "jsval \<Rightarrow> string" where
  "demo_digest v = ''sha512:'' @ ToString v"

definition E0 :: "Store env" where
  "E0 = \<lparr>SHA512 = demo_digest, database_query = mysql\<rparr>"

definition admin_row :: Row where
  "admin_row =
     \<lparr>c_id = JNum 1, c_creationTime = JStr ''2017-11-12 09:33:25'', c_username = JStr ''admin'',
      c_password = JStr ''sha512:secret'', c_firstName = JStr ''Peter'',
      c_lastName = JStr ''Kneisel'', c_rights = JStr ''1''\<rparr>"

definition hans_row :: Row where
  "hans_row =
     \<lparr>c_id = JNum 2, c_creationTime = JStr ''2018-11-04 13:02:44'', c_username = JStr ''hans'',
      c_password = JStr ''sha512:muster'', c_firstName = JStr ''Hans'',
      c_lastName = JStr ''Mustermann'', c_rights = JNum 0\<rparr>"

definition store0 :: Store where
  "store0 = \<lparr>userlist = [admin_row, hans_row], auto_increment = 3, failure = None\<rparr>"

definition admin_user :: User where
  "admin_user =
     new_User (JNum 1) (JStr ''admin'') (JStr ''Peter'') (JStr ''Kneisel'') (new_Date JUndefined)
       (JStr ''1'')"

definition hans_user :: User where
  "hans_user =
     new_User (JNum 2) (JStr ''hans'') (JStr ''Hans'') (JStr ''Mustermann'') (new_Date JUndefined)
       (JNum 0)"

definition visitor :: "User option \<Rightarrow> Store world" where
  "visitor u = \<lparr>session_user = u, store = store0, issued = []\<rparr>"

definition request :: "endpoint \<Rightarrow> Request" where
  "request r =
     \<lparr>route = r, params_userId = ''2'', body_username = JStr ''admin'',
      body_password = JStr ''secret'', body_firstName = JStr ''Bruce'',
      body_lastName = JStr ''Wayne'', now = ''11/4/2018, 1:03:18 PM''\<rparr>"

section \<open>Evaluating the installation\<close>

lemma Number_one: "Number (JStr ''1'') = JNum 1"
  by (simp add: Number_def StringToNumber_def trim_def is_ws_def is_digit_def digits_value_def)

lemma Number_two: "Number (JStr ''2'') = JNum 2"
  by (simp add: Number_def StringToNumber_def trim_def is_ws_def is_digit_def digits_value_def)

lemma Number_fortytwo: "Number (JStr ''42'') = JNum 42"
  by (simp add: Number_def StringToNumber_def trim_def is_ws_def is_digit_def digits_value_def)

lemma select_admin:
  "mysql ''SELECT * FROM userlist WHERE username = ? AND password = ?;''
     [JStr ''admin'', JStr ''sha512:secret''] store0 = ((None, Rows [admin_row]), store0)"
  by (simp add: mysql_def store0_def parse_def exec_def sql_eq_def admin_row_def hans_row_def)

lemma select_wrong_password:
  "mysql ''SELECT * FROM userlist WHERE username = ? AND password = ?;''
     [JStr ''admin'', JStr ''sha512:wrong''] store0 = ((None, Rows []), store0)"
  by (simp add: mysql_def store0_def parse_def exec_def sql_eq_def admin_row_def hans_row_def)

lemma select_duplicate:
  "mysql ''SELECT * FROM userlist WHERE username = ? AND password = ?;''
     [JStr ''admin'', JStr ''sha512:secret''] (store0\<lparr>userlist := [admin_row, admin_row]\<rparr>)
     = ((None, Rows [admin_row, admin_row]), store0\<lparr>userlist := [admin_row, admin_row]\<rparr>)"
  by (simp add: mysql_def store0_def parse_def exec_def sql_eq_def admin_row_def)

section \<open>The session guard\<close>

text \<open>
  C1. A request to one of the six session-guarded routes whose session holds no user is
  answered by 401 with the message "Session expired, please log in again", and the
  state after the request is the state before it: the session, the store and the trace
  of the queries are untouched, so no handler ran and no query was issued.
\<close>

theorem session_guard_rejects:
  assumes "route req \<in> {GET_login, POST_user, GET_user, PUT_user, DELETE_user, GET_users}"
    and "session_user w = None"
  shows "app E req w =
    (Sent \<lparr>status = 401, body = msg ''Session expired, please log in again''\<rparr>, w)"
  using assms by (auto simp: app_def stack_def isLoggedIn_def)

theorem session_guard_rejects_witness:
  "route (request GET_users) \<in> {GET_login, POST_user, GET_user, PUT_user, DELETE_user, GET_users}
   \<and> session_user (visitor None) = None
   \<and> app E0 (request GET_users) (visitor None) =
       (Sent \<lparr>status = 401, body = msg ''Session expired, please log in again''\<rparr>, visitor None)"
  using session_guard_rejects [of "request GET_users" "visitor None" E0]
  by (simp add: request_def visitor_def)

section \<open>The role guard\<close>

text \<open>
  C2. When the role of the session user reads as the number \<open>r\<close>, the role guard with
  minimum \<open>minimum\<close> answers 403 and leaves the state as it is if \<open>r < minimum\<close>, and
  calls the next function if \<open>minimum \<le> r\<close>. On the three role-guarded routes, whose
  minimum is Admin, a lower role gets the 403 with the state untouched (the handler did
  not run), and a role at or above Admin gets what the handler of the route does.
\<close>

theorem role_guard:
  assumes "session_user w = Some u" and "Number (u_rights u) = JNum r"
  shows "(r < minimum \<longrightarrow>
            isPrivilegedAtLeast minimum req w =
              (Sent \<lparr>status = 403, body = msg ''You are not allowed to execute this action''\<rparr>, w))
       \<and> (minimum \<le> r \<longrightarrow> isPrivilegedAtLeast minimum req w = (Next, w))
       \<and> (route req \<in> {POST_user, PUT_user, DELETE_user} \<longrightarrow>
            (r < ordinal Rights_Admin \<longrightarrow>
               app E req w =
                 (Sent \<lparr>status = 403, body = msg ''You are not allowed to execute this action''\<rparr>, w))
          \<and> (ordinal Rights_Admin \<le> r \<longrightarrow>
               app E req w = last (stack E (route req)) req w))"
  using assms
  by (auto simp: app_def stack_def isLoggedIn_def isPrivilegedAtLeast_def js_gt_def
        split: prod.splits outcome.splits)

theorem role_guard_witness:
  "Number (u_rights hans_user) = JNum 0
   \<and> app E0 (request DELETE_user) (visitor (Some hans_user)) =
       (Sent \<lparr>status = 403, body = msg ''You are not allowed to execute this action''\<rparr>,
        visitor (Some hans_user))
   \<and> Number (u_rights admin_user) = JNum 1
   \<and> isPrivilegedAtLeast 1 (request DELETE_user) (visitor (Some admin_user)) =
       (Next, visitor (Some admin_user))
   \<and> app E0 (request DELETE_user) (visitor (Some admin_user)) =
       deleteUser E0 (request DELETE_user) (visitor (Some admin_user))"
  using role_guard [of "visitor (Some hans_user)" hans_user 0 1 "request DELETE_user" E0]
    role_guard [of "visitor (Some admin_user)" admin_user 1 1 "request DELETE_user" E0]
  by (simp add: request_def visitor_def hans_user_def admin_user_def new_User_def Number_one
        ordinal_def stack_def) (simp add: Number_def)

section \<open>Login and logout\<close>

lemma login_masked:
  "fst (login (E\<lparr>database_query := mask_password p (database_query E)\<rparr>) req w)
     = fst (login E req w)"
  by (cases "database_query E ''SELECT * FROM userlist WHERE username = ? AND password = ?;''
        [body_username req, JStr (SHA512 E (body_password req))] (store w)")
     (auto simp: login_def query_def mask_password_def Let_def c_time_def new_User_def nth_Cons'
        thrown_ToString_def result_ToString_def o_def
        split: result.splits option.splits prod.splits)

text \<open>
  C3. POST /login, when the store answers the credentials query with the rows \<open>us\<close>:
  if \<open>us\<close> is exactly one row, the handler builds the User from the row's id, username,
  firstName, lastName and rights, stores it in the session and answers 200 with that
  User; if \<open>us\<close> has no row or more than one, it answers 401 "Username or password is
  incorrect." and the session is as before. The response never depends on the password
  column of the rows the store returns.
\<close>

theorem login_outcomes:
  assumes "route req = POST_login"
    and "database_query E ''SELECT * FROM userlist WHERE username = ? AND password = ?;''
           [body_username req, JStr (SHA512 E (body_password req))] (store w) = ((None, Rows us), s)"
  shows "(\<forall>r. us = [r] \<longrightarrow>
            app E req w =
              (Sent \<lparr>status = 200,
                     body = \<lparr>message = ''Successfully logged in'',
                             user = Some (new_User (c_id r) (c_username r) (c_firstName r)
                                            (c_lastName r) (new_Date JUndefined) (c_rights r)),
                             userList = None\<rparr>\<rparr>,
               w\<lparr>session_user := Some (new_User (c_id r) (c_username r) (c_firstName r)
                                        (c_lastName r) (new_Date JUndefined) (c_rights r)),
                 store := s,
                 issued := issued w @ [(''SELECT * FROM userlist WHERE username = ? AND password = ?;'',
                                        [body_username req, JStr (SHA512 E (body_password req))])]\<rparr>))
       \<and> (length us \<noteq> 1 \<longrightarrow>
            fst (app E req w) =
              Sent \<lparr>status = 401, body = msg ''Username or password is incorrect.''\<rparr>
            \<and> session_user (snd (app E req w)) = session_user w)
       \<and> (\<forall>p. fst (app (E\<lparr>database_query := mask_password p (database_query E)\<rparr>) req w)
               = fst (app E req w))"
proof -
  have one: "us = [r] \<Longrightarrow> login E req w =
              (Sent \<lparr>status = 200,
                     body = \<lparr>message = ''Successfully logged in'',
                             user = Some (new_User (c_id r) (c_username r) (c_firstName r)
                                            (c_lastName r) (new_Date JUndefined) (c_rights r)),
                             userList = None\<rparr>\<rparr>,
               w\<lparr>session_user := Some (new_User (c_id r) (c_username r) (c_firstName r)
                                        (c_lastName r) (new_Date JUndefined) (c_rights r)),
                 store := s,
                 issued := issued w @ [(''SELECT * FROM userlist WHERE username = ? AND password = ?;'',
                                        [body_username req, JStr (SHA512 E (body_password req))])]\<rparr>)" for r
    using assms(2) by (simp add: login_def query_def Let_def c_time_def)
  have other: "length us \<noteq> 1 \<Longrightarrow> login E req w =
       (Sent \<lparr>status = 401, body = msg ''Username or password is incorrect.''\<rparr>,
        w\<lparr>store := s,
          issued := issued w @ [(''SELECT * FROM userlist WHERE username = ? AND password = ?;'',
                                 [body_username req, JStr (SHA512 E (body_password req))])]\<rparr>)"
    using assms(2) by (simp add: login_def query_def Let_def)
  have app: "app E' req w = login E' req w" for E' :: "'a env"
    using assms(1) by (simp add: app_def stack_def split: prod.splits outcome.splits)
  show ?thesis
    using one other login_masked [of p E req w for p] by (simp add: app)
qed

theorem login_outcomes_witness:
  "app E0 (request POST_login) (visitor None) =
     (Sent \<lparr>status = 200,
            body = \<lparr>message = ''Successfully logged in'', user = Some admin_user,
                    userList = None\<rparr>\<rparr>,
      (visitor (Some admin_user))
        \<lparr>issued := [(''SELECT * FROM userlist WHERE username = ? AND password = ?;'',
                     [JStr ''admin'', JStr ''sha512:secret''])]\<rparr>)
   \<and> fst (app E0 ((request POST_login)\<lparr>body_password := JStr ''wrong''\<rparr>) (visitor None)) =
       Sent \<lparr>status = 401, body = msg ''Username or password is incorrect.''\<rparr>
   \<and> session_user (snd (app E0 ((request POST_login)\<lparr>body_password := JStr ''wrong''\<rparr>)
                         (visitor None))) = None
   \<and> fst (app E0 (request POST_login)
            ((visitor None)\<lparr>store := store0\<lparr>userlist := [admin_row, admin_row]\<rparr>\<rparr>)) =
       Sent \<lparr>status = 401, body = msg ''Username or password is incorrect.''\<rparr>"
  using login_outcomes [of "request POST_login" E0 "visitor None" "[admin_row]" store0]
    login_outcomes [of "(request POST_login)\<lparr>body_password := JStr ''wrong''\<rparr>" E0
      "visitor None" "[]" store0]
    login_outcomes [of "request POST_login" E0
      "(visitor None)\<lparr>store := store0\<lparr>userlist := [admin_row, admin_row]\<rparr>\<rparr>"
      "[admin_row, admin_row]" "store0\<lparr>userlist := [admin_row, admin_row]\<rparr>"]
    select_admin select_wrong_password select_duplicate
  by (simp add: request_def visitor_def E0_def demo_digest_def ToString_def admin_row_def
        admin_user_def)

text \<open>
  C8. POST /logout answers 200 "Successfully logged out" and leaves the session without
  a user, whatever the session held before (a user or none); a second logout leaves the
  state the first one left.
\<close>

theorem logout_idempotent:
  assumes "route req = POST_logout" and "route req' = POST_logout"
  shows "app E req w =
           (Sent \<lparr>status = 200, body = msg ''Successfully logged out''\<rparr>, w\<lparr>session_user := None\<rparr>)
       \<and> snd (app E req' (snd (app E req w))) = snd (app E req w)"
  using assms by (simp add: app_def stack_def logout_def)

theorem logout_idempotent_witness:
  "app E0 (request POST_logout) (visitor (Some admin_user)) =
     (Sent \<lparr>status = 200, body = msg ''Successfully logged out''\<rparr>, visitor None)
   \<and> snd (app E0 (request POST_logout) (snd (app E0 (request POST_logout) (visitor None))))
       = visitor None"
  using logout_idempotent [of "request POST_logout" "request POST_logout" E0
      "visitor (Some admin_user)"]
    logout_idempotent [of "request POST_logout" "request POST_logout" E0 "visitor None"]
  by (simp add: request_def visitor_def)

section \<open>Running a route\<close>

lemma run_one: "run [h] req w = h req w"
  by (cases "h req w") (auto split: outcome.splits)

lemma run_session_guard:
  "run [isLoggedIn, h] req w =
     (case session_user w of None \<Rightarrow> isLoggedIn req w | Some u \<Rightarrow> h req w)"
  by (cases "h req w") (auto simp: isLoggedIn_def split: option.splits outcome.splits)

lemma run_both_guards:
  "run [isLoggedIn, isPrivilegedAtLeast m, h] req w =
     (case session_user w of
        None \<Rightarrow> isLoggedIn req w
      | Some u \<Rightarrow>
          if js_gt m (Number (u_rights u)) then isPrivilegedAtLeast m req w else h req w)"
  by (cases "h req w")
     (auto simp: isLoggedIn_def isPrivilegedAtLeast_def split: option.splits outcome.splits)

lemma guards_pass:
  assumes "fst (isLoggedIn req w) = Next" and "fst (isPrivilegedAtLeast m req w) = Next"
  shows "run [isLoggedIn, isPrivilegedAtLeast m, h] req w = h req w"
  using assms
  by (cases "h req w")
     (auto simp: isLoggedIn_def isPrivilegedAtLeast_def split: option.splits if_splits outcome.splits)

lemma query_reply:
  assumes "database_query E sql data (store w) = ((err, res), s)"
  shows "query E sql data w =
           ((case err of Some e \<Rightarrow> Inl res | None \<Rightarrow> Inr res),
            w\<lparr>store := s, issued := issued w @ [(sql, data)]\<rparr>)"
  using assms by (simp add: query_def)

lemma guards_keep_state:
  "snd (isLoggedIn req w) = w" "snd (isPrivilegedAtLeast m req w) = w"
  by (simp_all add: isLoggedIn_def isPrivilegedAtLeast_def split: option.splits)

lemma admin_passes:
  "fst (isLoggedIn (request r) (visitor (Some admin_user))) = Next"
  "fst (isPrivilegedAtLeast (ordinal Rights_Admin) (request r) (visitor (Some admin_user))) = Next"
  by (simp_all add: isLoggedIn_def isPrivilegedAtLeast_def visitor_def admin_user_def new_User_def
        Number_one js_gt_def ordinal_def)

lemma admin_passes_other_id:
  "fst (isLoggedIn ((request r)\<lparr>params_userId := i\<rparr>) (visitor (Some admin_user))) = Next"
  "fst (isPrivilegedAtLeast (ordinal Rights_Admin) ((request r)\<lparr>params_userId := i\<rparr>)
         (visitor (Some admin_user))) = Next"
  by (simp_all add: isLoggedIn_def isPrivilegedAtLeast_def visitor_def admin_user_def new_User_def
        Number_one js_gt_def ordinal_def)

section \<open>Creating a user\<close>

lemma Rights_User_lowest: "ordinal Rights_User \<le> ordinal r"
  by (cases r) (simp_all add: ordinal_def)

text \<open>
  C4. A POST /user request that passes both guards and has a first and a last name issues
  one INSERT whose value for the column rights is the ordinal of Rights.User, whatever
  the body of the request holds, and Rights.User is the lowest ordinal of the enum. On
  the reference store the table either stays as it was (the store failed) or gains one
  row whose rights is that ordinal; it gains the row whenever the store is up.
\<close>

theorem createUser_role_fixed:
  assumes "route req = POST_user"
    and "fst (isLoggedIn req w) = Next"
    and "fst (isPrivilegedAtLeast (ordinal Rights_Admin) req w) = Next"
    and "truthy (body_firstName req)" and "truthy (body_lastName req)"
  shows "issued (snd (app E req w)) =
           issued w @
             [(''INSERT INTO userlist (creationTime, username, password, firstName, lastName, rights) VALUES (?, ?, ?, ?, ?, ?);'',
               [JStr (now req), body_username req, JStr (SHA512 E (body_password req)),
                body_firstName req, body_lastName req, JNum (ordinal Rights_User)])]
       \<and> (\<forall>r. ordinal Rights_User \<le> ordinal r)
       \<and> (database_query E = mysql \<longrightarrow>
            userlist (store (snd (app E req w))) = userlist (store w)
            \<or> (\<exists>row. userlist (store (snd (app E req w))) = userlist (store w) @ [row]
                    \<and> c_rights row = JNum (ordinal Rights_User)))
       \<and> (database_query E = mysql \<and> failure (store w) = None \<and> body_username req \<noteq> JNaN \<longrightarrow>
            (\<exists>row. userlist (store (snd (app E req w))) = userlist (store w) @ [row]
                  \<and> c_rights row = JNum (ordinal Rights_User)))"
proof -
  have app: "app E req w = createUser E req w"
    using assms(1) guards_pass [OF assms(2,3)] by (simp add: app_def stack_def)
  have log: "issued (snd (createUser E req w)) =
           issued w @
             [(''INSERT INTO userlist (creationTime, username, password, firstName, lastName, rights) VALUES (?, ?, ?, ?, ?, ?);'',
               [JStr (now req), body_username req, JStr (SHA512 E (body_password req)),
                body_firstName req, body_lastName req, JNum (ordinal Rights_User)])]"
    using assms(4,5)
    by (simp add: createUser_def query_def Let_def split: prod.splits option.splits)
  have nan: "body_firstName req \<noteq> JNaN" "body_lastName req \<noteq> JNaN"
    using assms(4,5) by (auto simp: truthy_def)
  have table: "database_query E = mysql \<Longrightarrow>
      userlist (store (snd (createUser E req w))) =
        (if failure (store w) = None \<and> body_username req \<noteq> JNaN
         then userlist (store w) @
           [\<lparr>c_id = JNum (auto_increment (store w)), c_creationTime = JStr (now req),
             c_username = to_sql (body_username req),
             c_password = JStr (SHA512 E (body_password req)),
             c_firstName = to_sql (body_firstName req),
             c_lastName = to_sql (body_lastName req),
             c_rights = JNum (ordinal Rights_User)\<rparr>]
         else userlist (store w))"
    using assms(4,5) nan
    by (simp add: createUser_def query_def Let_def mysql_def parse_def exec_def to_sql_def
          split: option.splits)
  show ?thesis
    using log table Rights_User_lowest by (auto simp: app)
qed

theorem createUser_role_fixed_witness:
  "route (request POST_user) = POST_user
   \<and> truthy (body_firstName (request POST_user)) \<and> truthy (body_lastName (request POST_user))
   \<and> issued (snd (app E0 (request POST_user) (visitor (Some admin_user)))) =
       [(''INSERT INTO userlist (creationTime, username, password, firstName, lastName, rights) VALUES (?, ?, ?, ?, ?, ?);'',
         [JStr ''11/4/2018, 1:03:18 PM'', JStr ''admin'', JStr ''sha512:secret'', JStr ''Bruce'',
          JStr ''Wayne'', JNum 0])]
   \<and> (\<exists>row. userlist (store (snd (app E0 (request POST_user) (visitor (Some admin_user)))))
               = [admin_row, hans_row, row] \<and> c_rights row = JNum 0)"
proof -
  have r: "route (request POST_user) = POST_user"
    and f: "truthy (body_firstName (request POST_user))"
    and l: "truthy (body_lastName (request POST_user))"
    by (simp_all add: request_def truthy_def)
  show ?thesis
    using createUser_role_fixed [OF r admin_passes f l, of E0] r f l
    by (simp add: E0_def request_def visitor_def store0_def demo_digest_def ToString_def
          ordinal_def)
qed

section \<open>Failures of the store\<close>

text \<open>
  What the handlers do when the driver reports an error \<open>e\<close> together with a result
  \<open>res\<close>: they answer 500, and the message is built from \<open>res\<close>; \<open>e\<close> is dropped by
  \<^verbatim>\<open>query\<close>.
\<close>

lemma query_rejects_with_result:
  assumes "database_query E sql data (store w) = ((Some e, res), s)"
  shows "fst (query E sql data w) = Inl res"
  using assms by (simp add: query_def)

lemma store_failure_500:
  "database_query E ''SELECT * FROM userlist WHERE username = ? AND password = ?;''
     [body_username req, JStr (SHA512 E (body_password req))] (store w) = ((Some e, res), s) \<Longrightarrow>
   fst (login E req w) =
     Sent \<lparr>status = 500, body = msg (''Database request failed: '' @ result_ToString res)\<rparr>"
  "database_query E ''SELECT * FROM userlist WHERE id = ?;''
     [Number (JStr (params_userId req))] (store w) = ((Some e, res), s) \<Longrightarrow>
   fst (getUserfromId E req w) =
     Sent \<lparr>status = 500, body = msg (''Database request failed: '' @ result_ToString res)\<rparr>"
  "database_query E ''DELETE FROM userlist WHERE id = ?;''
     [Number (JStr (params_userId req))] (store w) = ((Some e, res), s) \<Longrightarrow>
   fst (deleteUser E req w) =
     Sent \<lparr>status = 500, body = msg (''Database request failed: '' @ result_ToString res)\<rparr>"
  "database_query E ''SELECT * FROM userlist;'' [] (store w) = ((Some e, res), s) \<Longrightarrow>
   fst (getUserlist E req w) =
     Sent \<lparr>status = 500, body = msg (''Database request failed: '' @ result_ToString res)\<rparr>"
  by (simp_all add: login_def getUserfromId_def deleteUser_def getUserlist_def query_def Let_def
        thrown_ToString_def)

text \<open>
  C5. A store failure in POST /login, GET /user/:id, DELETE /user/:id or GET /users is
  caught by the handler and answered by 500, and the body is to carry the detail of the
  driver's error. The code answers 500, but the detail is lost: \<^verbatim>\<open>query\<close> rejects with
  the callback's result, which a failed call leaves undefined, so with the connection
  refused each of the four routes answers "Database request failed: undefined".
\<close>

theorem store_failure_detail_lost:
  "fst (app E0 (request POST_login)
          ((visitor None)\<lparr>store := store0\<lparr>failure := Some ''ECONNREFUSED''\<rparr>\<rparr>))
     = Sent \<lparr>status = 500, body = msg ''Database request failed: undefined''\<rparr>
   \<and> fst (app E0 (request GET_user)
          ((visitor (Some hans_user))\<lparr>store := store0\<lparr>failure := Some ''ECONNREFUSED''\<rparr>\<rparr>))
     = Sent \<lparr>status = 500, body = msg ''Database request failed: undefined''\<rparr>
   \<and> fst (app E0 (request DELETE_user)
          ((visitor (Some admin_user))\<lparr>store := store0\<lparr>failure := Some ''ECONNREFUSED''\<rparr>\<rparr>))
     = Sent \<lparr>status = 500, body = msg ''Database request failed: undefined''\<rparr>
   \<and> fst (app E0 (request GET_users)
          ((visitor (Some hans_user))\<lparr>store := store0\<lparr>failure := Some ''ECONNREFUSED''\<rparr>\<rparr>))
     = Sent \<lparr>status = 500, body = msg ''Database request failed: undefined''\<rparr>"
  by (simp add: app_def stack_def run_one run_session_guard run_both_guards request_def
        visitor_def E0_def admin_user_def hans_user_def new_User_def Number_one js_gt_def
        ordinal_def login_def getUserfromId_def deleteUser_def getUserlist_def query_def
        mysql_def thrown_ToString_def result_ToString_def Let_def del: run.simps)

section \<open>Deleting a user\<close>

text \<open>
  C6. A DELETE /user/:id request that passes both guards is answered by what the store
  reports for the DELETE statement: 200 when exactly one row was affected, the client
  error 400 "The user to be deleted could not be found" when no row was affected, and
  500 when the call failed.
\<close>

theorem deleteUser_outcomes:
  assumes "route req = DELETE_user"
    and "fst (isLoggedIn req w) = Next"
    and "fst (isPrivilegedAtLeast (ordinal Rights_Admin) req w) = Next"
    and "database_query E ''DELETE FROM userlist WHERE id = ?;''
           [Number (JStr (params_userId req))] (store w) = ((err, res), s)"
  shows "(err = None \<and> res = OkPacket 1 \<longrightarrow>
            fst (app E req w) = Sent \<lparr>status = 200, body = msg ''Successfully deleted user ''\<rparr>)
       \<and> (err = None \<and> res = OkPacket 0 \<longrightarrow>
            fst (app E req w) =
              Sent \<lparr>status = 400, body = msg ''The user to be deleted could not be found''\<rparr>)
       \<and> (err \<noteq> None \<longrightarrow>
            fst (app E req w) =
              Sent \<lparr>status = 500,
                    body = msg (''Database request failed: '' @ result_ToString res)\<rparr>)"
proof -
  have app: "app E req w = deleteUser E req w"
    using assms(1) guards_pass [OF assms(2,3)] by (simp add: app_def stack_def)
  show ?thesis
    unfolding app using query_reply [OF assms(4)]
    by (auto simp: deleteUser_def Let_def thrown_ToString_def)
qed

theorem deleteUser_outcomes_witness:
  "fst (app E0 (request DELETE_user) (visitor (Some admin_user)))
     = Sent \<lparr>status = 200, body = msg ''Successfully deleted user ''\<rparr>
   \<and> fst (app E0 ((request DELETE_user)\<lparr>params_userId := ''42''\<rparr>) (visitor (Some admin_user)))
     = Sent \<lparr>status = 400, body = msg ''The user to be deleted could not be found''\<rparr>
   \<and> fst (app E0 (request DELETE_user)
            ((visitor (Some admin_user))\<lparr>store := store0\<lparr>failure := Some ''ECONNREFUSED''\<rparr>\<rparr>))
     = Sent \<lparr>status = 500, body = msg ''Database request failed: undefined''\<rparr>"
proof -
  have r: "route (request DELETE_user) = DELETE_user"
    "route ((request DELETE_user)\<lparr>params_userId := ''42''\<rparr>) = DELETE_user"
    by (simp_all add: request_def)
  have one: "database_query E0 ''DELETE FROM userlist WHERE id = ?;''
      [Number (JStr (params_userId (request DELETE_user)))] (store (visitor (Some admin_user)))
      = ((None, OkPacket 1), store0\<lparr>userlist := [admin_row]\<rparr>)"
    by (simp add: E0_def request_def visitor_def Number_two mysql_def parse_def exec_def
          sql_eq_def store0_def admin_row_def hans_row_def)
  have zero: "database_query E0 ''DELETE FROM userlist WHERE id = ?;''
      [Number (JStr (params_userId ((request DELETE_user)\<lparr>params_userId := ''42''\<rparr>)))]
      (store (visitor (Some admin_user))) = ((None, OkPacket 0), store0)"
    by (simp add: E0_def request_def visitor_def Number_fortytwo mysql_def parse_def exec_def
          sql_eq_def store0_def admin_row_def hans_row_def)
  have down: "database_query E0 ''DELETE FROM userlist WHERE id = ?;''
      [Number (JStr (params_userId (request DELETE_user)))]
      (store ((visitor (Some admin_user))\<lparr>store := store0\<lparr>failure := Some ''ECONNREFUSED''\<rparr>\<rparr>))
      = ((Some ''ECONNREFUSED'', RUndefined), store0\<lparr>failure := Some ''ECONNREFUSED''\<rparr>)"
    by (simp add: E0_def mysql_def)
  have pass:
    "fst (isLoggedIn (request DELETE_user)
            ((visitor (Some admin_user))\<lparr>store := store0\<lparr>failure := Some ''ECONNREFUSED''\<rparr>\<rparr>)) = Next"
    "fst (isPrivilegedAtLeast (ordinal Rights_Admin) (request DELETE_user)
            ((visitor (Some admin_user))\<lparr>store := store0\<lparr>failure := Some ''ECONNREFUSED''\<rparr>\<rparr>)) = Next"
    by (simp_all add: isLoggedIn_def isPrivilegedAtLeast_def visitor_def admin_user_def
          new_User_def Number_one js_gt_def ordinal_def)
  show ?thesis
    using deleteUser_outcomes [OF r(1) admin_passes one]
      deleteUser_outcomes [OF r(2) admin_passes_other_id zero]
      deleteUser_outcomes [OF r(1) pass down]
    by (simp add: result_ToString_def)
qed

section \<open>Updating a user\<close>

lemma update_table:
  assumes "truthy (body_firstName req)" and "truthy (body_lastName req)"
    and "database_query E = mysql"
  shows "store (snd (update E req w)) =
     (if failure (store w) = None \<and> Number (JStr (params_userId req)) \<noteq> JNaN
      then (store w)\<lparr>userlist :=
             map (\<lambda>r. if sql_eq (c_id r) (Number (JStr (params_userId req)))
                       then r\<lparr>c_firstName := body_firstName req,
                              c_lastName := body_lastName req\<rparr>
                       else r) (userlist (store w))\<rparr>
      else store w)"
proof -
  have "body_firstName req \<noteq> JNaN" "body_lastName req \<noteq> JNaN"
    "to_sql (body_firstName req) = body_firstName req"
    "to_sql (body_lastName req) = body_lastName req"
    using assms(1,2) by (auto simp: truthy_def to_sql_def)
  then show ?thesis
    using assms
    by (simp add: update_def query_def Let_def mysql_def parse_def exec_def
          split: option.splits result.splits)
qed

lemma update_session: "session_user (snd (update E req w)) = session_user w"
  by (simp add: update_def query_def Let_def
        split: prod.splits option.splits result.splits sum.splits)

text \<open>
  C7. A PUT /user/:id request that passes both guards and has a first and a last name,
  run on the reference store, leaves the table with the same rows in the same places:
  every row keeps its id, username, password, rights and creation time, a row whose id
  is not the one of the request is unchanged altogether, and a row whose id is the one
  of the request gets the first and the last name of the request when the store is up.
  The id counter and the session are unchanged.
\<close>

theorem update_frame:
  assumes "route req = PUT_user"
    and "fst (isLoggedIn req w) = Next"
    and "fst (isPrivilegedAtLeast (ordinal Rights_Admin) req w) = Next"
    and "truthy (body_firstName req)" and "truthy (body_lastName req)"
    and "database_query E = mysql"
  shows "length (userlist (store (snd (app E req w)))) = length (userlist (store w))
       \<and> (\<forall>i < length (userlist (store w)).
            c_id (userlist (store (snd (app E req w))) ! i) = c_id (userlist (store w) ! i)
            \<and> c_username (userlist (store (snd (app E req w))) ! i)
                = c_username (userlist (store w) ! i)
            \<and> c_password (userlist (store (snd (app E req w))) ! i)
                = c_password (userlist (store w) ! i)
            \<and> c_rights (userlist (store (snd (app E req w))) ! i)
                = c_rights (userlist (store w) ! i)
            \<and> c_creationTime (userlist (store (snd (app E req w))) ! i)
                = c_creationTime (userlist (store w) ! i)
            \<and> (c_id (userlist (store w) ! i) \<noteq> Number (JStr (params_userId req)) \<longrightarrow>
                 userlist (store (snd (app E req w))) ! i = userlist (store w) ! i)
            \<and> (c_id (userlist (store w) ! i) = Number (JStr (params_userId req))
                 \<and> failure (store w) = None
                 \<and> Number (JStr (params_userId req)) \<noteq> JNaN \<longrightarrow>
                 c_firstName (userlist (store (snd (app E req w))) ! i) = body_firstName req
                 \<and> c_lastName (userlist (store (snd (app E req w))) ! i) = body_lastName req))
       \<and> auto_increment (store (snd (app E req w))) = auto_increment (store w)
       \<and> session_user (snd (app E req w)) = session_user w"
proof -
  have app: "app E req w = update E req w"
    using assms(1) guards_pass [OF assms(2,3)] by (simp add: app_def stack_def)
  have num: "Number (JStr (params_userId req)) \<noteq> JNull"
    "Number (JStr (params_userId req)) \<noteq> JUndefined"
    by (simp_all add: Number_def StringToNumber_def Let_def)
  show ?thesis
    unfolding app update_table [OF assms(4,5,6)] update_session
    using num by (simp add: sql_eq_def)
qed

theorem update_frame_witness:
  "route (request PUT_user) = PUT_user
   \<and> truthy (body_firstName (request PUT_user)) \<and> truthy (body_lastName (request PUT_user))
   \<and> database_query E0 = mysql
   \<and> userlist (store (snd (app E0 (request PUT_user) (visitor (Some admin_user))))) ! 0
       = admin_row
   \<and> c_username (userlist (store (snd (app E0 (request PUT_user) (visitor (Some admin_user))))) ! 1)
       = JStr ''hans''
   \<and> c_firstName (userlist (store (snd (app E0 (request PUT_user) (visitor (Some admin_user))))) ! 1)
       = JStr ''Bruce''"
proof -
  have r: "route (request PUT_user) = PUT_user"
    and f: "truthy (body_firstName (request PUT_user))"
    and l: "truthy (body_lastName (request PUT_user))"
    and d: "database_query E0 = mysql"
    by (simp_all add: request_def truthy_def E0_def)
  have two: "Number (JStr (params_userId (request PUT_user))) = JNum 2"
    by (simp add: request_def Number_two)
  have len: "length (userlist (store (visitor (Some admin_user)))) = 2"
    "userlist (store (visitor (Some admin_user))) ! 0 = admin_row"
    "userlist (store (visitor (Some admin_user))) ! Suc 0 = hans_row"
    "failure (store (visitor (Some admin_user))) = None"
    by (simp_all add: visitor_def store0_def)
  have ids: "c_id admin_row = JNum 1" "c_id hans_row = JNum 2" "c_username hans_row = JStr ''hans''"
    "body_firstName (request PUT_user) = JStr ''Bruce''"
    by (simp_all add: admin_row_def hans_row_def request_def)
  show ?thesis
    using update_frame [OF r admin_passes f l d] r f l d
    by (simp add: two len ids less_2_cases_iff all_conj_distrib)
qed

section \<open>The order of the guards\<close>

lemma handlers_never_throw:
  "fst (get_login req w) \<noteq> Threw t"
  "fst (login E req w) \<noteq> Threw t"
  "fst (logout req w) \<noteq> Threw t"
  "fst (createUser E req w) \<noteq> Threw t"
  "fst (getUserfromId E req w) \<noteq> Threw t"
  "fst (update E req w) \<noteq> Threw t"
  "fst (deleteUser E req w) \<noteq> Threw t"
  "fst (getUserlist E req w) \<noteq> Threw t"
  by (simp_all add: get_login_def login_def logout_def createUser_def getUserfromId_def
        update_def deleteUser_def getUserlist_def Let_def
        split: prod.splits sum.splits result.splits)

lemma app_never_throws: "fst (app E req w) \<noteq> Threw t"
  by (cases "route req")
     (auto simp: app_def stack_def run_one run_session_guard run_both_guards isLoggedIn_def
        isPrivilegedAtLeast_def handlers_never_throw simp del: run.simps
        split: option.splits prod.splits)

text \<open>
  C9. On POST /user, PUT /user/:id and DELETE /user/:id the stack is the session guard,
  then the role guard, then the handler. The role guard therefore only ever receives a
  state the session guard let through, and such a state has a session user, on which the
  role guard does not throw. On a session without a user the role guard alone would
  throw on the read of \<^verbatim>\<open>rights\<close>, but the route answers with what the session guard
  answers; no request to these routes ends in a throw.
\<close>

theorem role_guard_after_session_guard:
  assumes "route req \<in> {POST_user, PUT_user, DELETE_user}"
  shows "(\<exists>h. stack E (route req) =
                [isLoggedIn, isPrivilegedAtLeast (ordinal Rights_Admin), h])
       \<and> (\<forall>w1. isLoggedIn req w = (Next, w1) \<longrightarrow>
             (\<exists>u. session_user w1 = Some u)
             \<and> (\<forall>t. fst (isPrivilegedAtLeast (ordinal Rights_Admin) req w1) \<noteq> Threw t))
       \<and> (session_user w = None \<longrightarrow>
             fst (isPrivilegedAtLeast (ordinal Rights_Admin) req w) = Threw (cannot_read ''rights'')
             \<and> app E req w = isLoggedIn req w)
       \<and> (\<forall>t. fst (app E req w) \<noteq> Threw t)"
proof -
  have shape: "\<exists>h. stack E (route req) =
                [isLoggedIn, isPrivilegedAtLeast (ordinal Rights_Admin), h]"
    using assms by (auto simp: stack_def)
  have entry: "isLoggedIn req w = (Next, w1) \<Longrightarrow>
      (\<exists>u. session_user w1 = Some u)
      \<and> (\<forall>t. fst (isPrivilegedAtLeast (ordinal Rights_Admin) req w1) \<noteq> Threw t)" for w1
    by (auto simp: isLoggedIn_def isPrivilegedAtLeast_def split: option.splits)
  have none: "session_user w = None \<Longrightarrow>
      fst (isPrivilegedAtLeast (ordinal Rights_Admin) req w) = Threw (cannot_read ''rights'')
      \<and> app E req w = isLoggedIn req w"
    using assms by (auto simp: app_def stack_def isLoggedIn_def isPrivilegedAtLeast_def)
  show ?thesis
    using shape entry none app_never_throws [of E req w] by blast
qed

theorem role_guard_after_session_guard_witness:
  "route (request PUT_user) \<in> {POST_user, PUT_user, DELETE_user}
   \<and> fst (isPrivilegedAtLeast (ordinal Rights_Admin) (request PUT_user) (visitor None))
       = Threw (cannot_read ''rights'')
   \<and> app E0 (request PUT_user) (visitor None) =
       (Sent \<lparr>status = 401, body = msg ''Session expired, please log in again''\<rparr>, visitor None)"
  using role_guard_after_session_guard [of "request PUT_user" E0 "visitor None"]
  by (simp add: request_def visitor_def isLoggedIn_def)

section \<open>Who writes the session\<close>

lemma handlers_keep_session:
  "session_user (snd (get_login req w)) = session_user w"
  "session_user (snd (createUser E req w)) = session_user w"
  "session_user (snd (getUserfromId E req w)) = session_user w"
  "session_user (snd (update E req w)) = session_user w"
  "session_user (snd (deleteUser E req w)) = session_user w"
  "session_user (snd (getUserlist E req w)) = session_user w"
  by (simp_all add: get_login_def createUser_def getUserfromId_def update_def deleteUser_def
        getUserlist_def query_def Let_def
        split: prod.splits option.splits result.splits sum.splits)

lemma login_session:
  "session_user (snd (login E req w)) = session_user w
   \<or> (\<exists>r s. database_query E ''SELECT * FROM userlist WHERE username = ? AND password = ?;''
               [body_username req, JStr (SHA512 E (body_password req))] (store w)
               = ((None, Rows [r]), s)
            \<and> session_user (snd (login E req w)) =
                Some (new_User (c_id r) (c_username r) (c_firstName r) (c_lastName r)
                        (new_Date JUndefined) (c_rights r)))"
proof (cases "database_query E ''SELECT * FROM userlist WHERE username = ? AND password = ?;''
               [body_username req, JStr (SHA512 E (body_password req))] (store w)")
  case (Pair reply s)
  obtain err res where reply: "reply = (err, res)" by (cases reply)
  show ?thesis
  proof (cases "err = None \<and> (\<exists>r. res = Rows [r])")
    case True
    then obtain r where "err = None" "res = Rows [r]" by blast
    with Pair reply show ?thesis
      by (simp add: login_def query_def Let_def c_time_def)
  next
    case False
    with Pair reply have "session_user (snd (login E req w)) = session_user w"
      by (cases err; cases res)
         (auto simp: login_def query_def Let_def length_Suc_conv)
    then show ?thesis by simp
  qed
qed

text \<open>
  C10. The two guards return the state they were given. A request to any route but
  POST /login and POST /logout leaves the session user as it was. When a request does
  change the session user, it is either a POST /login whose credentials query was
  answered with exactly one row, and the session then holds the User built from that
  row, or a POST /logout, and the session then holds no user.
\<close>

theorem session_writers:
  "snd (isLoggedIn req w) = w
   \<and> snd (isPrivilegedAtLeast m req w) = w
   \<and> (route req \<notin> {POST_login, POST_logout} \<longrightarrow>
        session_user (snd (app E req w)) = session_user w)
   \<and> (session_user (snd (app E req w)) \<noteq> session_user w \<longrightarrow>
        (route req = POST_login
         \<and> (\<exists>r s. database_query E
                       ''SELECT * FROM userlist WHERE username = ? AND password = ?;''
                       [body_username req, JStr (SHA512 E (body_password req))] (store w)
                       = ((None, Rows [r]), s)
                  \<and> session_user (snd (app E req w)) =
                      Some (new_User (c_id r) (c_username r) (c_firstName r) (c_lastName r)
                              (new_Date JUndefined) (c_rights r))))
        \<or> (route req = POST_logout \<and> session_user (snd (app E req w)) = None))"
proof -
  have others: "route req \<notin> {POST_login, POST_logout} \<Longrightarrow>
      session_user (snd (app E req w)) = session_user w"
    by (cases "route req")
       (simp_all add: app_def stack_def run_session_guard run_both_guards guards_keep_state
          handlers_keep_session del: run.simps split: option.splits)
  have login: "route req = POST_login \<Longrightarrow> app E req w = login E req w"
    by (simp add: app_def stack_def run_one del: run.simps)
  have logout: "route req = POST_logout \<Longrightarrow> session_user (snd (app E req w)) = None"
    by (simp add: app_def stack_def run_one logout_def del: run.simps)
  show ?thesis
    using others login logout login_session [of E req w]
    by (cases "route req") (auto simp: guards_keep_state)
qed

theorem session_writers_witness:
  "route (request POST_login) = POST_login
   \<and> session_user (visitor None) = None
   \<and> session_user (snd (app E0 (request POST_login) (visitor None))) = Some admin_user
   \<and> session_user (snd (app E0 (request GET_users) (visitor (Some admin_user)))) = Some admin_user"
proof -
  have "session_user (snd (app E0 (request POST_login) (visitor None))) = Some admin_user"
    by (simp add: app_def stack_def request_def visitor_def E0_def login_def query_def Let_def
          demo_digest_def ToString_def select_admin admin_user_def admin_row_def c_time_def)
  then show ?thesis
    using session_writers [of "request POST_login" "visitor None" 1 E0]
      session_writers [of "request GET_users" "visitor (Some admin_user)" 1 E0]
    by (simp add: request_def visitor_def)
qed

end
